theory Spec2Isabelle
  imports Main "HOL-Library.Sublist"
begin

unbundle bit_operations_syntax

section \<open>Python values and exceptions\<close>

text \<open>
  The exceptions that the two modules raise or let through. Every exception carries the
  text that \<open>str(e)\<close> gives; \<open>CalledProcessError\<close> carries its \<open>output\<close> attribute
  as a second field. The texts of the errors that the interpreter itself raises (a value
  that cannot be subscripted, iterated or turned into a path) are shortened; the two
  modules never read them.
\<close>

datatype exception =
    RuntimeError string
  | TypeError string
  | KeyError string
  | OSError string
  | ValueError string
  | UnicodeDecodeError string
  | CalledProcessError string string

fun str_of :: "exception \<Rightarrow> string" where
  "str_of (RuntimeError m) = m"
| "str_of (TypeError m) = m"
| "str_of (KeyError m) = m"
| "str_of (OSError m) = m"
| "str_of (ValueError m) = m"
| "str_of (UnicodeDecodeError m) = m"
| "str_of (CalledProcessError m out) = m"

section \<open>pathlib, POSIX flavour\<close>

text \<open>
  A \<open>pathlib.Path\<close> object of the POSIX flavour is its root (\<open>''''\<close>, \<open>''/''\<close> or
  \<open>''//''\<close>) and the list of its components; the drive is always empty there.
\<close>

datatype Path = PurePath (root: string) (tail: "string list")

text \<open>\<open>posixpath.splitroot\<close> without the drive: exactly two leading slashes are kept.\<close>

definition splitroot :: "string \<Rightarrow> string \<times> string" where
  "splitroot p =
     (if take 1 p \<noteq> ''/'' then ('''', p)
      else if take 1 (drop 1 p) \<noteq> ''/'' \<or> take 1 (drop 2 p) = ''/'' then (''/'', drop 1 p)
      else (''//'', drop 2 p))"

text \<open>\<open>s.split('/')\<close>: the empty string splits into one empty piece.\<close>

fun split_sep :: "string \<Rightarrow> string list" where
  "split_sep [] = [[]]"
| "split_sep (c # cs) =
     (if c = CHR ''/'' then [] # split_sep cs
      else (case split_sep cs of [] \<Rightarrow> [[c]] | x # xs \<Rightarrow> (c # x) # xs))"

text \<open>\<open>'/'.join(parts)\<close>\<close>

fun join_sep :: "string list \<Rightarrow> string" where
  "join_sep [] = []"
| "join_sep [x] = x"
| "join_sep (x # y # ys) = x @ ''/'' @ join_sep (y # ys)"

text \<open>\<open>Path(s)\<close> for a string: empty and \<open>.\<close> components are dropped.\<close>

definition parse_path :: "string \<Rightarrow> Path" where
  "parse_path p =
     (case splitroot p of
        (rt, rel) \<Rightarrow> PurePath rt (filter (\<lambda>x. x \<noteq> [] \<and> x \<noteq> ''.'') (split_sep rel)))"

text \<open>\<open>str(path)\<close>; on POSIX \<open>path.as_posix()\<close> is the same string.\<close>

definition path_str :: "Path \<Rightarrow> string" where
  "path_str p =
     (if root p \<noteq> [] then root p @ join_sep (tail p)
      else if tail p = [] then ''.'' else join_sep (tail p))"

definition as_posix :: "Path \<Rightarrow> string" where
  "as_posix p = path_str p"

text \<open>
  \<open>path.absolute()\<close>: an absolute path is returned as it is, a relative one is joined
  to the working directory \<open>cwd\<close> (the value of \<open>os.getcwd()\<close>), without resolving
  \<open>..\<close> or symbolic links.
\<close>

definition absolute :: "string \<Rightarrow> Path \<Rightarrow> Path" where
  "absolute cwd p =
     (if root p \<noteq> [] then p
      else PurePath (root (parse_path cwd)) (tail (parse_path cwd) @ tail p))"

text \<open>\<open>path.name\<close>: the last component, empty when there is none.\<close>

definition name :: "Path \<Rightarrow> string" where
  "name p = (if tail p = [] then [] else last (tail p))"

text \<open>\<open>s.rfind(c)\<close>: the highest index of \<open>c\<close> in \<open>s\<close>, or \<open>-1\<close>.\<close>

fun rfind :: "string \<Rightarrow> char \<Rightarrow> int" where
  "rfind [] c = - 1"
| "rfind (x # xs) c =
     (if 0 \<le> rfind xs c then rfind xs c + 1 else if x = c then 0 else - 1)"

text \<open>
  \<open>path.stem\<close>: the name without its last suffix. A dot at index 0 or at the end of
  the name starts no suffix.
\<close>

definition stem :: "Path \<Rightarrow> string" where
  "stem p =
     (let n = name p; i = rfind n CHR ''.''
      in if 0 < i \<and> i < int (length n) - 1 then take (nat i) n else n)"

section \<open>The enumerations of the Constants module\<close>

datatype PyEnvType = system | venv | poetry | conda | unknown

text \<open>
  Modelled from the spec: the declaration of \<open>PyInstOpt\<close>, which the spec calls the
  closed enumeration of the supported options, is in the Constants module and not in the
  two modules. It is an \<open>enum.IntFlag\<close> of nine members, each declared with
  \<open>enum.auto()\<close>, so that the members are ints, the powers of two in the order of
  declaration.
\<close>

datatype PyInstOpt =
    script_path
  | icon_path
  | FD
  | console
  | out_name
  | add_data
  | add_binary
  | hidden_import
  | clean

fun flag_value :: "PyInstOpt \<Rightarrow> int" where
  "flag_value script_path = 1"
| "flag_value icon_path = 2"
| "flag_value FD = 4"
| "flag_value console = 8"
| "flag_value out_name = 16"
| "flag_value add_data = 32"
| "flag_value add_binary = 64"
| "flag_value hidden_import = 128"
| "flag_value clean = 256"

text \<open>\<open>for value in PyInstOpt\<close>: the nine members, in the order of declaration.\<close>

definition members :: "PyInstOpt list" where
  "members =
     [script_path, icon_path, FD, console, out_name, add_data, add_binary, hidden_import, clean]"

section \<open>subprocess and json\<close>

record CompletedProcess =
  returncode :: int
  stdout :: string
  stderr :: string

text \<open>
  What becomes of a command line that is run with its output captured as text:
  \<^item> the arguments cannot be handed to the operating system (an embedded null byte),
    nothing is started and \<open>subprocess.run\<close> raises a \<open>ValueError\<close>;
  \<^item> the process cannot be started (no such file, no permission) and
    \<open>subprocess.run\<close> raises an \<open>OSError\<close>;
  \<^item> the process is started, but what it writes is not text in the encoding of the
    locale, and \<open>subprocess.run\<close> raises a \<open>UnicodeDecodeError\<close>;
  \<^item> the process runs to its end and its output is text.

  The first three carry the text of the exception.
\<close>

datatype launched =
    Rejected string
  | NotLaunched string
  | Undecodable string
  | Exited CompletedProcess

datatype json =
    JNull
  | JBool bool
  | JInt int
  | JStr string
  | JList "json list"
  | JDict "(string \<times> json) list"

text \<open>
  The surroundings of a call: the working directory, the path that
  \<open>get_sys_python()\<close> returns, the outcome of running a command line, and
  \<open>json.loads\<close> (\<open>Inl\<close> is the text of its \<open>JSONDecodeError\<close>).
\<close>

record world =
  getcwd :: string
  get_sys_python :: string
  launch :: "string list \<Rightarrow> launched"
  json_loads :: "string \<Rightarrow> string + json"

text \<open>
  \<open>subprocess.run(cmd, capture_output=True, text=True)\<close>, as both queries call it:
  without \<open>check=True\<close> a non-zero exit status is returned in \<open>returncode\<close>
  and raises nothing.
\<close>

definition subprocess_run :: "world \<Rightarrow> string list \<Rightarrow> exception + CompletedProcess" where
  "subprocess_run w cmd =
     (case launch w cmd of
        Rejected m \<Rightarrow> Inl (ValueError m)
      | NotLaunched m \<Rightarrow> Inl (OSError m)
      | Undecodable m \<Rightarrow> Inl (UnicodeDecodeError m)
      | Exited r \<Rightarrow> Inr r)"

section \<open>PyEnv\<close>

record PyEnv =
  exe_path :: string
  pyversion :: string
  installed_packages :: json
  type :: PyEnvType

definition version_cmd :: "string \<Rightarrow> string list" where
  "version_cmd executable_path =
     [executable_path, ''-c'',
      ''import platform;print(platform.python_version(), end='' @ [CHR 0x27, CHR 0x27] @ '')'']"

definition get_py_version :: "world \<Rightarrow> string \<Rightarrow> exception + string" where
  "get_py_version w executable_path =
     (case subprocess_run w (version_cmd executable_path) of
        Inr result \<Rightarrow> Inr (stdout result)
      | Inl (CalledProcessError m out) \<Rightarrow>
          Inl (RuntimeError (''Failed to get Python version: '' @ out))
      | Inl e \<Rightarrow> Inl e)"

definition pip_list_cmd :: "string \<Rightarrow> string list" where
  "pip_list_cmd executable_path =
     [executable_path, ''-m'', ''pip'', ''list'', ''--format'', ''json'',
      ''--disable-pip-version-check'', ''--no-color'', ''--no-python-version-warning'']"

definition get_installed_packages :: "world \<Rightarrow> string \<Rightarrow> exception + json" where
  "get_installed_packages w executable_path =
     (case subprocess_run w (pip_list_cmd executable_path) of
        Inl (CalledProcessError m out) \<Rightarrow>
          Inl (RuntimeError (''Failed to get installed packages: '' @ out))
      | Inl e \<Rightarrow> Inl (RuntimeError (''An error occurred: '' @ str_of e))
      | Inr result \<Rightarrow>
          (case json_loads w (stdout result) of
             Inl m \<Rightarrow> Inl (RuntimeError (''Failed to parse installed packages: '' @ m))
           | Inr installed \<Rightarrow> Inr installed))"

text \<open>
  The loop of \<open>infer_type\<close> over \<open>match_pair\<close>: \<open>patten in exe_path\<close> is the
  substring test, and the first pattern found decides.
\<close>

fun first_match :: "(string \<times> PyEnvType) list \<Rightarrow> string \<Rightarrow> PyEnvType" where
  "first_match [] exe = unknown"
| "first_match ((patten, env_type) # rest) exe =
     (if sublist patten exe then env_type else first_match rest exe)"

definition match_pair :: "world \<Rightarrow> (string \<times> PyEnvType) list" where
  "match_pair w =
     [(''venv'', venv),
      (''pypoetry'', poetry),
      (''conda'', conda),
      (as_posix (absolute (getcwd w) (parse_path (get_sys_python w))), system)]"

definition infer_type :: "world \<Rightarrow> string \<Rightarrow> PyEnvType" where
  "infer_type w executable_path =
     first_match (match_pair w)
       (as_posix (absolute (getcwd w) (parse_path executable_path)))"

text \<open>
  The \<open>type_\<close> argument of the constructor: left out (the default
  \<open>PyEnvType.unknown\<close> applies), or passed, where \<open>None\<close> is a value that can be
  passed.
\<close>

datatype type_arg = Omitted | Passed "PyEnvType option"

definition PyEnv_init :: "world \<Rightarrow> string \<Rightarrow> type_arg \<Rightarrow> exception + PyEnv" where
  "PyEnv_init w executable_path arg =
     (let type' = (case arg of Omitted \<Rightarrow> Some unknown | Passed t \<Rightarrow> t);
          exe = path_str (absolute (getcwd w) (parse_path executable_path))
      in case get_py_version w exe of
           Inl e \<Rightarrow> Inl e
         | Inr version \<Rightarrow>
             (case get_installed_packages w exe of
                Inl e \<Rightarrow> Inl e
              | Inr installed \<Rightarrow>
                  Inr \<lparr>exe_path = exe, pyversion = version, installed_packages = installed,
                       type = (case type' of None \<Rightarrow> infer_type w exe | Some t \<Rightarrow> t)\<rparr>))"

text \<open>
  \<open>pkg["name"]\<close> on a value that \<open>json.loads\<close> returned: only a dict can be
  subscripted with a string, and a missing key raises.
\<close>

fun subscript_name :: "json \<Rightarrow> exception + json" where
  "subscript_name (JDict items) =
     (case map_of items ''name'' of
        None \<Rightarrow> Inl (KeyError ''name'')
      | Some v \<Rightarrow> Inr v)"
| "subscript_name (JList xs) = Inl (TypeError ''list indices must be integers or slices, not str'')"
| "subscript_name (JStr s) = Inl (TypeError ''string indices must be integers'')"
| "subscript_name pkg = Inl (TypeError ''object is not subscriptable'')"

text \<open>
  \<open>for pkg in self.installed_packages\<close>: a list gives its elements, a dict its keys,
  a string its characters; nothing else can be iterated.
\<close>

fun iterate :: "json \<Rightarrow> exception + json list" where
  "iterate (JList xs) = Inr xs"
| "iterate (JDict items) = Inr (map (\<lambda>kv. JStr (fst kv)) items)"
| "iterate (JStr s) = Inr (map (\<lambda>c. JStr [c]) s)"
| "iterate j = Inl (TypeError ''object is not iterable'')"

text \<open>
  \<open>any(pkg["name"] == package_name for pkg in pkgs)\<close>: stops at the first package
  whose name is equal, and at the first one that cannot be subscripted.
\<close>

fun any_name_eq :: "json list \<Rightarrow> string \<Rightarrow> exception + bool" where
  "any_name_eq [] package_name = Inr False"
| "any_name_eq (pkg # pkgs) package_name =
     (case subscript_name pkg of
        Inl e \<Rightarrow> Inl e
      | Inr v \<Rightarrow> if v = JStr package_name then Inr True else any_name_eq pkgs package_name)"

definition pkg_installed :: "PyEnv \<Rightarrow> string \<Rightarrow> exception + bool" where
  "pkg_installed self package_name =
     (case iterate (installed_packages self) of
        Inl e \<Rightarrow> Inl e
      | Inr pkgs \<Rightarrow> any_name_eq pkgs package_name)"

section \<open>PackagingTask\<close>

text \<open>The values that travel with an option; \<open>PyNone\<close> marks an option as not set.\<close>

datatype pyval =
    PyNone
  | PyBool bool
  | PyInt int
  | PyStr string
  | PyPath Path
  | PyList "pyval list"

fun type_name :: "pyval \<Rightarrow> string" where
  "type_name PyNone = ''NoneType''"
| "type_name (PyBool b) = ''bool''"
| "type_name (PyInt i) = ''int''"
| "type_name (PyStr s) = ''str''"
| "type_name (PyPath p) = ''PosixPath''"
| "type_name (PyList xs) = ''list''"

text \<open>\<open>Path(arg_value)\<close>: a string is parsed, a path is taken over, anything else raises.\<close>

fun to_Path :: "pyval \<Rightarrow> exception + Path" where
  "to_Path (PyStr s) = Inr (parse_path s)"
| "to_Path (PyPath p) = Inr p"
| "to_Path v =
     Inl (TypeError (''expected str, bytes or os.PathLike object, not '' @ type_name v))"

text \<open>
  The first item of a submitted tuple, by what the slot can observe of it:
  \<^item> an instance of \<open>PyInstOpt\<close>, with its value: one of the nine members, or another
    value of the flag such as the combination \<open>FD | console\<close>;
  \<^item> an object that is no instance of \<open>PyInstOpt\<close> but equals an int (the int
    itself, \<open>True\<close>, \<open>1.0\<close>), with that int and its \<open>str\<close>;
  \<^item> any other object, equal to no int, with its \<open>str\<close>.
\<close>

datatype arg_key = Flag int | Number int string | Object string

text \<open>The object \<open>PyInstOpt.m\<close> of a member \<open>m\<close>.\<close>

definition opt :: "PyInstOpt \<Rightarrow> arg_key" where
  "opt m = Flag (flag_value m)"

text \<open>\<open>arg_key == PyInstOpt.m\<close>: a member of an IntFlag compares as the int that it is.\<close>

fun equals :: "arg_key \<Rightarrow> PyInstOpt \<Rightarrow> bool" where
  "equals (Flag n) m = (n = flag_value m)"
| "equals (Number n s) m = (n = flag_value m)"
| "equals (Object s) m = False"

text \<open>\<open>isinstance(arg_key, PyInstOpt)\<close>\<close>

fun is_PyInstOpt :: "arg_key \<Rightarrow> bool" where
  "is_PyInstOpt (Flag n) = True"
| "is_PyInstOpt (Number n s) = False"
| "is_PyInstOpt (Object s) = False"

text \<open>The two checks of \<open>FilePathValidator\<close> that the task calls.\<close>

record FilePathValidator =
  validate_script :: "Path \<Rightarrow> bool"
  validate_icon :: "Path \<Rightarrow> bool"

text \<open>The three Qt signals, each with its payload, in the order of emission.\<close>

datatype signal =
    option_set arg_key pyval
  | option_error arg_key
  | ready_to_pack bool

text \<open>
  \<open>using_option\<close> is a dict whose keys are values of \<open>PyInstOpt\<close>; a dict finds
  such a key by the int that it is.
\<close>

record PackagingTask =
  pyenv :: "PyEnv option"
  using_option :: "int \<rightharpoonup> pyval"

text \<open>
  \<open>__init__\<close>: no environment, and \<open>{value: None for value in PyInstOpt}\<close>, one key
  for each of the nine members.
\<close>

definition PackagingTask_init :: PackagingTask where
  "PackagingTask_init =
     \<lparr>pyenv = None,
      using_option = map_of (map (\<lambda>member. (flag_value member, PyNone)) members)\<rparr>"

text \<open>
  What one call of the slot leaves behind: the task, the signals emitted, and the
  exception that ended the call, if one did.
\<close>

record outcome =
  task :: PackagingTask
  emitted :: "signal list"
  raised :: "exception option"

text \<open>The error of the last branch, from \<open>str(arg_key)\<close> and \<open>str(PyInstOpt)\<close>.\<close>

definition not_a_member :: "string \<Rightarrow> exception" where
  "not_a_member s =
     TypeError ([CHR 0x27] @ s @ [CHR 0x27] @ '' is not a instance of <flag '' @
                [CHR 0x27] @ ''PyInstOpt'' @ [CHR 0x27] @ ''>.'')"

definition on_opt_selected ::
  "FilePathValidator \<Rightarrow> PackagingTask \<Rightarrow> arg_key \<times> pyval \<Rightarrow> outcome" where
  "on_opt_selected validator self option =
     (case option of (arg_key, arg_value) \<Rightarrow>
        if equals arg_key script_path then
          (case to_Path arg_value of
             Inl e \<Rightarrow> \<lparr>task = self, emitted = [], raised = Some e\<rparr>
           | Inr path \<Rightarrow>
               if validate_script validator path then
                 \<lparr>task = self\<lparr>using_option :=
                          (using_option self)(flag_value script_path \<mapsto> PyPath path,
                                              flag_value out_name \<mapsto> PyStr (stem path))\<rparr>,
                  emitted = [ready_to_pack True, option_set arg_key arg_value,
                             option_set (opt out_name) (PyStr (stem path))],
                  raised = None\<rparr>
               else
                 \<lparr>task = self,
                  emitted = [ready_to_pack False, option_error arg_key],
                  raised = None\<rparr>)
        else if equals arg_key icon_path then
          (case to_Path arg_value of
             Inl e \<Rightarrow> \<lparr>task = self, emitted = [], raised = Some e\<rparr>
           | Inr path \<Rightarrow>
               if validate_icon validator path then
                 \<lparr>task = self\<lparr>using_option :=
                          (using_option self)(flag_value icon_path \<mapsto> PyPath path)\<rparr>,
                  emitted = [option_set arg_key arg_value],
                  raised = None\<rparr>
               else
                 \<lparr>task = self, emitted = [option_error arg_key], raised = None\<rparr>)
        else
          (case arg_key of
             Flag n \<Rightarrow>
               \<lparr>task = self\<lparr>using_option := (using_option self)(n \<mapsto> arg_value)\<rparr>,
                emitted = [option_set arg_key arg_value],
                raised = None\<rparr>
           | Number n s \<Rightarrow>
               \<lparr>task = self, emitted = [], raised = Some (not_a_member s)\<rparr>
           | Object s \<Rightarrow>
               \<lparr>task = self, emitted = [], raised = Some (not_a_member s)\<rparr>))"

section \<open>Sample surroundings\<close>

text \<open>
  A machine whose interpreter answers both queries, one on which no process can be
  started, one whose interpreter has no pip, and one whose pip writes bytes that are no
  text; a validator that accepts every path and one that accepts none. The package listing of the first is abbreviated to a token
  that its \<open>json_loads\<close> reads as one record.
\<close>

definition pip_record :: json where
  "pip_record = JDict [(''name'', JStr ''pip''), (''version'', JStr ''23.0'')]"

definition sample_world :: world where
  "sample_world =
     \<lparr>getcwd = ''/home/user'',
      get_sys_python = ''/usr/bin/python3'',
      launch = (\<lambda>cmd. Exited \<lparr>returncode = 0,
                                stdout = (if take 1 (drop 1 cmd) = [''-c''] then ''3.11.7''
                                          else ''[pip 23.0]''),
                                stderr = []\<rparr>),
      json_loads = (\<lambda>s. if s = ''[pip 23.0]'' then Inr (JList [pip_record])
                          else Inl ''Expecting value: line 1 column 1 (char 0)'')\<rparr>"

definition no_interpreter :: world where
  "no_interpreter =
     sample_world\<lparr>launch := (\<lambda>cmd. NotLaunched ''[Errno 2] No such file or directory'')\<rparr>"

definition no_pip :: world where
  "no_pip =
     sample_world\<lparr>launch := (\<lambda>cmd. Exited \<lparr>returncode = 1, stdout = [],
                                               stderr = ''No module named pip''\<rparr>)\<rparr>"



definition sample_env :: "json \<Rightarrow> PyEnv" where
  "sample_env pkgs =
     \<lparr>exe_path = ''/usr/bin/python3'', pyversion = ''3.11.7'',
      installed_packages = pkgs, type = system\<rparr>"

definition accept_all :: FilePathValidator where
  "accept_all = \<lparr>validate_script = (\<lambda>p. True), validate_icon = (\<lambda>p. True)\<rparr>"

definition reject_all :: FilePathValidator where
  "reject_all = \<lparr>validate_script = (\<lambda>p. False), validate_icon = (\<lambda>p. False)\<rparr>"

section \<open>The environment: inferring the type\<close>

text \<open>
  C1, as stated, fails: with \<open>/usr/bin/python3\<close> as the system interpreter, the
  path \<open>/usr/bin/python3.11\<close> contains none of the three names and is not the
  normalized path of the system interpreter, yet \<open>infer_type\<close> returns
  \<open>system\<close>, not \<open>unknown\<close>: the fourth rule is a substring test like the others.
\<close>

theorem infer_type_exact_match_counterexample:
  "\<not> sublist ''venv''
       (as_posix (absolute (getcwd sample_world) (parse_path ''/usr/bin/python3.11'')))
   \<and> \<not> sublist ''pypoetry''
       (as_posix (absolute (getcwd sample_world) (parse_path ''/usr/bin/python3.11'')))
   \<and> \<not> sublist ''conda''
       (as_posix (absolute (getcwd sample_world) (parse_path ''/usr/bin/python3.11'')))
   \<and> as_posix (absolute (getcwd sample_world) (parse_path ''/usr/bin/python3.11'')) \<noteq>
       as_posix (absolute (getcwd sample_world) (parse_path (get_sys_python sample_world)))
   \<and> infer_type sample_world ''/usr/bin/python3.11'' = system"
  by code_simp

text \<open>
  C1, amended: with \<open>exe\<close> the absolute path in POSIX form and \<open>sys\<close> that of
  the system interpreter, \<open>infer_type\<close> tests in this order: \<open>venv\<close> occurs in
  \<open>exe\<close>, then \<open>pypoetry\<close> occurs, then \<open>conda\<close> occurs, then \<open>sys\<close>
  occurs in \<open>exe\<close> (an exact match is one such occurrence); the first test that holds
  decides, and \<open>unknown\<close> is returned when none holds. So a path that contains both
  \<open>venv\<close> and \<open>conda\<close> is of type \<open>venv\<close>.
\<close>

theorem infer_type_first_match:
  assumes "exe = as_posix (absolute (getcwd w) (parse_path p))"
    and "sys = as_posix (absolute (getcwd w) (parse_path (get_sys_python w)))"
  shows "infer_type w p =
           (if sublist ''venv'' exe then venv
            else if sublist ''pypoetry'' exe then poetry
            else if sublist ''conda'' exe then conda
            else if sublist sys exe then system
            else unknown)
         \<and> (sublist ''venv'' exe \<and> sublist ''conda'' exe \<longrightarrow> infer_type w p = venv)
         \<and> (\<not> sublist ''venv'' exe \<and> \<not> sublist ''pypoetry'' exe \<and> \<not> sublist ''conda'' exe
              \<and> exe = sys \<longrightarrow> infer_type w p = system)"
proof -
  have rules: "infer_type w p =
           (if sublist ''venv'' exe then venv
            else if sublist ''pypoetry'' exe then poetry
            else if sublist ''conda'' exe then conda
            else if sublist sys exe then system
            else unknown)"
    using assms by (simp add: infer_type_def match_pair_def)
  moreover have "sublist exe exe"
    by (rule sublist_order.order.refl)
  ultimately show ?thesis
    by auto
qed

theorem infer_type_first_match_witness:
  "sublist ''venv''
     (as_posix (absolute (getcwd sample_world) (parse_path ''miniconda3/envs/venv/bin/python'')))
   \<and> sublist ''conda''
     (as_posix (absolute (getcwd sample_world) (parse_path ''miniconda3/envs/venv/bin/python'')))
   \<and> infer_type sample_world ''miniconda3/envs/venv/bin/python'' = venv
   \<and> infer_type sample_world ''/usr/bin/python3'' = system
   \<and> infer_type sample_world ''/usr/local/bin/python3'' = unknown"
proof -
  have exe: "as_posix (absolute (getcwd sample_world)
                 (parse_path ''miniconda3/envs/venv/bin/python'')) =
      ''/home/user/miniconda3/envs/venv/bin/python''"
    by code_simp
  have found: "sublist ''venv'' ''/home/user/miniconda3/envs/venv/bin/python''"
    "sublist ''conda'' ''/home/user/miniconda3/envs/venv/bin/python''"
    by code_simp+
  have others: "infer_type sample_world ''/usr/bin/python3'' = system"
    "infer_type sample_world ''/usr/local/bin/python3'' = unknown"
    by code_simp+
  from infer_type_first_match [OF refl refl, of sample_world "''miniconda3/envs/venv/bin/python''"]
  show ?thesis
    by (simp add: exe found others)
qed

section \<open>The environment: the two queries\<close>

lemma get_py_version_never_RuntimeError: "get_py_version w p \<noteq> Inl (RuntimeError m)"
  by (simp add: get_py_version_def subprocess_run_def split: launched.splits)

text \<open>
  C2 does not hold of the code. Where no process can be started, \<open>get_py_version\<close>
  lets the \<open>OSError\<close> of \<open>subprocess.run\<close> through, and so does the constructor:
  neither raises a \<open>RuntimeError\<close>. Where the interpreter starts and exits with a
  non-zero status, \<open>get_py_version\<close> raises nothing and returns what was printed.
\<close>

theorem get_py_version_not_launched:
  "get_py_version no_interpreter ''/no/such/python'' =
     Inl (OSError ''[Errno 2] No such file or directory'')
   \<and> PyEnv_init no_interpreter ''/no/such/python'' Omitted =
     Inl (OSError ''[Errno 2] No such file or directory'')
   \<and> get_py_version no_pip ''/usr/bin/python3'' = Inr []"
  by code_simp







section \<open>The environment: is a package installed\<close>

lemma any_name_eq_records:
  "\<forall>pkg\<in>set pkgs. \<exists>items. pkg = JDict items \<and> map_of items ''name'' \<noteq> None \<Longrightarrow>
   any_name_eq pkgs n =
     Inr (\<exists>items. JDict items \<in> set pkgs \<and> map_of items ''name'' = Some (JStr n))"
proof (induction pkgs)
  case Nil
  then show ?case by simp
next
  case (Cons pkg pkgs)
  then obtain items v where pkg: "pkg = JDict items" "map_of items ''name'' = Some v"
    by auto
  from Cons have rest:
    "any_name_eq pkgs n =
       Inr (\<exists>items. JDict items \<in> set pkgs \<and> map_of items ''name'' = Some (JStr n))"
    by simp
  show ?case
  proof (cases "v = JStr n")
    case True
    with pkg show ?thesis by auto
  next
    case False
    with pkg rest show ?thesis by auto
  qed
qed

text \<open>
  C8: for every package name and every list of installed-package records (dicts that
  have a name), \<open>pkg_installed\<close> returns true iff some record of the list has exactly
  that string as its name; on the empty list it returns false.
\<close>

theorem pkg_installed_iff:
  "(installed_packages self = JList pkgs \<and>
    (\<forall>pkg\<in>set pkgs. \<exists>items. pkg = JDict items \<and> map_of items ''name'' \<noteq> None) \<longrightarrow>
      pkg_installed self n =
        Inr (\<exists>items. JDict items \<in> set pkgs \<and> map_of items ''name'' = Some (JStr n)))
   \<and> (installed_packages self = JList [] \<longrightarrow> pkg_installed self n = Inr False)"
  by (simp add: pkg_installed_def any_name_eq_records)

theorem pkg_installed_iff_witness:
  "pkg_installed (sample_env (JList [pip_record])) ''pip'' = Inr True
   \<and> pkg_installed (sample_env (JList [pip_record])) ''Pip'' = Inr False
   \<and> pkg_installed (sample_env (JList [])) ''pip'' = Inr False"
  using pkg_installed_iff [of "sample_env (JList [pip_record])" "[pip_record]" "''pip''"]
    pkg_installed_iff [of "sample_env (JList [pip_record])" "[pip_record]" "''Pip''"]
    pkg_installed_iff [of "sample_env (JList [])" "[]" "''pip''"]
  by (simp add: pip_record_def sample_env_def)

section \<open>The environment: the default of the type argument\<close>

text \<open>
  C10: an environment constructed without the type argument has type \<open>unknown\<close>,
  whatever its path, exactly as if \<open>unknown\<close> had been passed; the type is inferred
  from the path only when \<open>None\<close> is passed, and any other type passed is kept.
\<close>

theorem omitted_type_is_unknown:
  "(PyEnv_init w p Omitted = Inr env \<longrightarrow> type env = unknown)
   \<and> PyEnv_init w p Omitted = PyEnv_init w p (Passed (Some unknown))
   \<and> (PyEnv_init w p (Passed None) = Inr env' \<longrightarrow> type env' = infer_type w (exe_path env'))
   \<and> (PyEnv_init w p (Passed (Some t)) = Inr env'' \<longrightarrow> type env'' = t)"
  by (auto simp: PyEnv_init_def Let_def split: sum.splits)

theorem omitted_type_is_unknown_witness:
  "PyEnv_init sample_world ''.venv/bin/python'' Omitted =
     Inr \<lparr>exe_path = ''/home/user/.venv/bin/python'', pyversion = ''3.11.7'',
          installed_packages = JList [pip_record], type = unknown\<rparr>
   \<and> infer_type sample_world ''/home/user/.venv/bin/python'' = venv
   \<and> PyEnv_init sample_world ''.venv/bin/python'' (Passed None) =
     Inr \<lparr>exe_path = ''/home/user/.venv/bin/python'', pyversion = ''3.11.7'',
          installed_packages = JList [pip_record], type = venv\<rparr>
   \<and> PyEnv_init sample_world ''.venv/bin/python'' (Passed (Some conda)) =
     Inr \<lparr>exe_path = ''/home/user/.venv/bin/python'', pyversion = ''3.11.7'',
          installed_packages = JList [pip_record], type = conda\<rparr>"
proof -
  have made: "PyEnv_init sample_world ''.venv/bin/python'' Omitted =
     Inr \<lparr>exe_path = ''/home/user/.venv/bin/python'', pyversion = ''3.11.7'',
          installed_packages = JList [pip_record], type = unknown\<rparr>"
    by code_simp
  have inferred: "infer_type sample_world ''/home/user/.venv/bin/python'' = venv"
    by code_simp
  have made': "PyEnv_init sample_world ''.venv/bin/python'' (Passed None) =
     Inr \<lparr>exe_path = ''/home/user/.venv/bin/python'', pyversion = ''3.11.7'',
          installed_packages = JList [pip_record], type = venv\<rparr>"
    by code_simp
  have made'': "PyEnv_init sample_world ''.venv/bin/python'' (Passed (Some conda)) =
     Inr \<lparr>exe_path = ''/home/user/.venv/bin/python'', pyversion = ''3.11.7'',
          installed_packages = JList [pip_record], type = conda\<rparr>"
    by code_simp
  from omitted_type_is_unknown [of sample_world "''.venv/bin/python''" _ _ conda]
    made inferred made' made''
  show ?thesis by simp
qed

section \<open>The stem of a path\<close>

lemma rfind_absent: "c \<notin> set s \<Longrightarrow> rfind s c = - 1"
  by (induction s) auto

lemma rfind_last: "c \<notin> set ys \<Longrightarrow> rfind (xs @ c # ys) c = int (length xs)"
  by (induction xs) (auto simp: rfind_absent)

lemma rfind_split:
  "0 \<le> rfind s c \<Longrightarrow> \<exists>xs ys. s = xs @ c # ys \<and> c \<notin> set ys \<and> rfind s c = int (length xs)"
proof (induction s)
  case Nil
  then show ?case by simp
next
  case (Cons x s)
  show ?case
  proof (cases "0 \<le> rfind s c")
    case True
    with Cons.IH obtain xs ys where "s = xs @ c # ys" "c \<notin> set ys" "rfind s c = int (length xs)"
      by blast
    with True have "x # s = (x # xs) @ c # ys \<and> c \<notin> set ys \<and> rfind (x # s) c = int (length (x # xs))"
      by simp
    then show ?thesis by blast
  next
    case False
    with Cons.prems have x: "x = c" and "rfind (x # s) c = 0"
      by (auto split: if_splits)
    moreover from False have "c \<notin> set s"
      using rfind_last [of c] by (metis split_list_last of_nat_0_le_iff)
    ultimately have "x # s = [] @ c # s \<and> c \<notin> set s \<and> rfind (x # s) c = int (length ([]::string))"
      by simp
    then show ?thesis by blast
  qed
qed

lemma stem_strips_suffix:
  assumes "name path = base @ ''.'' @ ext" and "base \<noteq> []" and "ext \<noteq> []"
    and "CHR ''.'' \<notin> set ext"
  shows "stem path = base"
proof -
  from assms(1,4) have "rfind (name path) CHR ''.'' = int (length base)"
    using rfind_last [of "CHR ''.''" ext base] by simp
  with assms show ?thesis
    by (simp add: stem_def Let_def)
qed

lemma stem_without_suffix:
  assumes "\<not> (\<exists>base ext. name path = base @ ''.'' @ ext \<and> base \<noteq> [] \<and> ext \<noteq> [] \<and>
                CHR ''.'' \<notin> set ext)"
  shows "stem path = name path"
proof (rule ccontr)
  assume differs: "stem path \<noteq> name path"
  define i where "i = rfind (name path) CHR ''.''"
  from differs have bounds: "0 < i" "i < int (length (name path)) - 1"
    by (auto simp: stem_def Let_def i_def split: if_splits)
  then have "0 \<le> rfind (name path) CHR ''.''"
    by (simp add: i_def)
  then obtain xs ys where split: "name path = xs @ CHR ''.'' # ys" "CHR ''.'' \<notin> set ys"
    "rfind (name path) CHR ''.'' = int (length xs)"
    using rfind_split by blast
  with bounds have "xs \<noteq> []" "ys \<noteq> []"
    by (auto simp: i_def)
  with split assms show False
    by auto
qed

section \<open>The task: the two validated options\<close>

text \<open>
  C4: for every value that makes a path which the validator accepts as a script, a
  submission for the script path stores the path under the script path and the stem of
  the path under the output name, and emits, in this order, readiness true, the
  acceptance of the script path with the submitted value, and the acceptance of the
  output name with the stem. The stem is the base name without its extension: the part
  before the last dot when the name has a non-empty part on both sides of that dot
  (\<open>build_app\<close> for \<open>.../build_app.py\<close>), and the whole name otherwise.
\<close>

theorem script_path_accepted:
  assumes "to_Path v = Inr path" and "validate_script validator path"
  shows "on_opt_selected validator self (opt script_path, v) =
           \<lparr>task = self\<lparr>using_option :=
                    (using_option self)(flag_value script_path \<mapsto> PyPath path,
                                        flag_value out_name \<mapsto> PyStr (stem path))\<rparr>,
            emitted = [ready_to_pack True, option_set (opt script_path) v,
                       option_set (opt out_name) (PyStr (stem path))],
            raised = None\<rparr>
         \<and> (\<forall>base ext. name path = base @ ''.'' @ ext \<and> base \<noteq> [] \<and> ext \<noteq> [] \<and>
                CHR ''.'' \<notin> set ext \<longrightarrow> stem path = base)
         \<and> ((\<nexists>base ext. name path = base @ ''.'' @ ext \<and> base \<noteq> [] \<and> ext \<noteq> [] \<and>
                CHR ''.'' \<notin> set ext) \<longrightarrow> stem path = name path)"
proof -
  from assms have "on_opt_selected validator self (opt script_path, v) =
           \<lparr>task = self\<lparr>using_option :=
                    (using_option self)(flag_value script_path \<mapsto> PyPath path,
                                        flag_value out_name \<mapsto> PyStr (stem path))\<rparr>,
            emitted = [ready_to_pack True, option_set (opt script_path) v,
                       option_set (opt out_name) (PyStr (stem path))],
            raised = None\<rparr>"
    by (simp add: on_opt_selected_def opt_def)
  moreover have "\<forall>base ext. name path = base @ ''.'' @ ext \<and> base \<noteq> [] \<and> ext \<noteq> [] \<and>
                CHR ''.'' \<notin> set ext \<longrightarrow> stem path = base"
    using stem_strips_suffix by blast
  moreover have "(\<nexists>base ext. name path = base @ ''.'' @ ext \<and> base \<noteq> [] \<and> ext \<noteq> [] \<and>
                CHR ''.'' \<notin> set ext) \<longrightarrow> stem path = name path"
    using stem_without_suffix by blast
  ultimately show ?thesis by blast
qed

theorem script_path_accepted_witness:
  "to_Path (PyStr ''/home/user/build_app.py'') =
     Inr (PurePath ''/'' [''home'', ''user'', ''build_app.py''])
   \<and> validate_script accept_all (PurePath ''/'' [''home'', ''user'', ''build_app.py''])
   \<and> name (PurePath ''/'' [''home'', ''user'', ''build_app.py'']) = ''build_app'' @ ''.'' @ ''py''
   \<and> on_opt_selected accept_all PackagingTask_init
        (opt script_path, PyStr ''/home/user/build_app.py'') =
       \<lparr>task = PackagingTask_init\<lparr>using_option :=
            (using_option PackagingTask_init)
              (flag_value script_path \<mapsto>
                 PyPath (PurePath ''/'' [''home'', ''user'', ''build_app.py'']),
               flag_value out_name \<mapsto> PyStr ''build_app'')\<rparr>,
        emitted = [ready_to_pack True,
                   option_set (opt script_path) (PyStr ''/home/user/build_app.py''),
                   option_set (opt out_name) (PyStr ''build_app'')],
        raised = None\<rparr>"
proof -
  have parsed: "to_Path (PyStr ''/home/user/build_app.py'') =
      Inr (PurePath ''/'' [''home'', ''user'', ''build_app.py''])"
    by code_simp
  have valid: "validate_script accept_all (PurePath ''/'' [''home'', ''user'', ''build_app.py''])"
    by (simp add: accept_all_def)
  have named: "name (PurePath ''/'' [''home'', ''user'', ''build_app.py'']) =
      ''build_app'' @ ''.'' @ ''py''"
    by (simp add: name_def)
  from script_path_accepted [OF parsed valid, of PackagingTask_init]
  have "name (PurePath ''/'' [''home'', ''user'', ''build_app.py'']) = ''build_app'' @ ''.'' @ ''py''
      \<and> ''build_app'' \<noteq> [] \<and> ''py'' \<noteq> [] \<and> CHR ''.'' \<notin> set ''py''
      \<longrightarrow> stem (PurePath ''/'' [''home'', ''user'', ''build_app.py'']) = ''build_app''"
    by blast
  with named have "stem (PurePath ''/'' [''home'', ''user'', ''build_app.py'']) = ''build_app''"
    by simp
  with script_path_accepted [OF parsed valid, of PackagingTask_init] parsed valid named
  show ?thesis by simp
qed

text \<open>
  C5: a value that makes a path which the validator rejects changes nothing in the task.
  For the script path the call emits readiness false and then the rejection of the
  script path, and no acceptance; for the icon path it emits the rejection of the icon
  path only, so no readiness. An entry that was never accepted is still unset.
\<close>

theorem invalid_path_rejected:
  "(to_Path v = Inr path \<and> \<not> validate_script validator path \<longrightarrow>
      on_opt_selected validator self (opt script_path, v) =
        \<lparr>task = self, emitted = [ready_to_pack False, option_error (opt script_path)],
         raised = None\<rparr>)
   \<and> (to_Path v = Inr path \<and> \<not> validate_icon validator path \<longrightarrow>
      on_opt_selected validator self (opt icon_path, v) =
        \<lparr>task = self, emitted = [option_error (opt icon_path)], raised = None\<rparr>)"
  by (simp add: on_opt_selected_def opt_def)

theorem invalid_path_rejected_witness:
  "to_Path (PyStr ''/no/such/script.py'') = Inr (PurePath ''/'' [''no'', ''such'', ''script.py''])
   \<and> \<not> validate_script reject_all (PurePath ''/'' [''no'', ''such'', ''script.py''])
   \<and> \<not> validate_icon reject_all (PurePath ''/'' [''no'', ''such'', ''script.py''])
   \<and> on_opt_selected reject_all PackagingTask_init
        (opt script_path, PyStr ''/no/such/script.py'') =
       \<lparr>task = PackagingTask_init,
        emitted = [ready_to_pack False, option_error (opt script_path)], raised = None\<rparr>
   \<and> on_opt_selected reject_all PackagingTask_init
        (opt icon_path, PyStr ''/no/such/script.py'') =
       \<lparr>task = PackagingTask_init, emitted = [option_error (opt icon_path)], raised = None\<rparr>
   \<and> using_option PackagingTask_init (flag_value script_path) = Some PyNone
   \<and> using_option PackagingTask_init (flag_value icon_path) = Some PyNone"
proof -
  have parsed: "to_Path (PyStr ''/no/such/script.py'') =
      Inr (PurePath ''/'' [''no'', ''such'', ''script.py''])"
    by code_simp
  have invalid: "\<not> validate_script reject_all (PurePath ''/'' [''no'', ''such'', ''script.py''])"
    "\<not> validate_icon reject_all (PurePath ''/'' [''no'', ''such'', ''script.py''])"
    by (simp_all add: reject_all_def)
  from invalid_path_rejected [of "PyStr ''/no/such/script.py''"
      "PurePath ''/'' [''no'', ''such'', ''script.py'']" reject_all PackagingTask_init]
    parsed invalid
  show ?thesis by (simp add: PackagingTask_init_def members_def)
qed

section \<open>The task: options that are not validated, and objects that are no option\<close>

lemma flag_value_script_path: "flag_value m = 1 \<longleftrightarrow> m = script_path"
  by (cases m) simp_all

lemma flag_value_icon_path: "flag_value m = 2 \<longleftrightarrow> m = icon_path"
  by (cases m) simp_all

text \<open>
  C6: for every member of the option enumeration other than the script path and the icon
  path, and every value, a submission stores the value as it is under that option and
  emits exactly one signal, the acceptance of (option, value); nothing is raised and no
  rejection is emitted.
\<close>

theorem other_option_stored:
  "m \<noteq> script_path \<Longrightarrow> m \<noteq> icon_path \<Longrightarrow>
   on_opt_selected validator self (opt m, v) =
     \<lparr>task = self\<lparr>using_option := (using_option self)(flag_value m \<mapsto> v)\<rparr>,
      emitted = [option_set (opt m) v],
      raised = None\<rparr>"
  by (simp add: on_opt_selected_def opt_def flag_value_script_path flag_value_icon_path)

theorem other_option_stored_witness:
  "hidden_import \<noteq> script_path \<and> hidden_import \<noteq> icon_path
   \<and> emitted (on_opt_selected reject_all PackagingTask_init
                 (opt hidden_import, PyList [PyStr ''numpy''])) =
       [option_set (opt hidden_import) (PyList [PyStr ''numpy''])]
   \<and> using_option (task (on_opt_selected reject_all PackagingTask_init
                 (opt hidden_import, PyList [PyStr ''numpy''])))
        (flag_value hidden_import) =
       Some (PyList [PyStr ''numpy''])
   \<and> raised (on_opt_selected reject_all PackagingTask_init
                 (opt hidden_import, PyList [PyStr ''numpy''])) = None"
  using other_option_stored [of hidden_import reject_all PackagingTask_init
      "PyList [PyStr ''numpy'']"]
  by simp

lemma neither_instance_nor_equal_raises:
  "\<not> is_PyInstOpt arg_key \<Longrightarrow> \<not> equals arg_key script_path \<Longrightarrow>
   \<not> equals arg_key icon_path \<Longrightarrow>
   \<exists>s. on_opt_selected validator self (arg_key, v) =
     \<lparr>task = self, emitted = [], raised = Some (not_a_member s)\<rparr>"
  by (cases arg_key) (auto simp: on_opt_selected_def)

text \<open>
  C7 does not hold of the code. The int \<open>1\<close> is no instance of \<open>PyInstOpt\<close>, but
  it equals \<open>PyInstOpt.script_path\<close>, and the slot compares with \<open>==\<close> before it
  asks \<open>isinstance\<close>: submitted with the path of a script, the int \<open>1\<close> is
  handled as the script path. The path and the output name are stored, three signals
  are emitted, and nothing is raised.
\<close>

theorem int_one_taken_for_script_path:
  "\<not> is_PyInstOpt (Number 1 ''1'')
   \<and> raised (on_opt_selected accept_all PackagingTask_init
               (Number 1 ''1'', PyStr ''/home/user/build_app.py'')) = None
   \<and> emitted (on_opt_selected accept_all PackagingTask_init
               (Number 1 ''1'', PyStr ''/home/user/build_app.py'')) =
       [ready_to_pack True, option_set (Number 1 ''1'') (PyStr ''/home/user/build_app.py''),
        option_set (opt out_name) (PyStr ''build_app'')]
   \<and> using_option (task (on_opt_selected accept_all PackagingTask_init
               (Number 1 ''1'', PyStr ''/home/user/build_app.py''))) (flag_value script_path) =
       Some (PyPath (PurePath ''/'' [''home'', ''user'', ''build_app.py'']))
   \<and> using_option (task (on_opt_selected accept_all PackagingTask_init
               (Number 1 ''1'', PyStr ''/home/user/build_app.py''))) (flag_value out_name) =
       Some (PyStr ''build_app'')
   \<and> using_option PackagingTask_init (flag_value script_path) = Some PyNone"
  by code_simp

section \<open>The task: the keys of the option map\<close>









end
